theory Spec2Isabelle
  imports Main "HOL-Library.Word" "HOL-Library.Sublist"
begin

section \<open>Strings and the regular expressions of the filter\<close>

text \<open>
  A JavaScript string is a sequence of 16-bit code units. Literals of the source are
  written \<open>str ''...''\<close>; the two marker characters of \<open>wb_ext_filter.ts\<close> are the
  code units U+FFF7 and U+FFF8.
\<close>

type_synonym jstring = "16 word list"

definition str :: "string \<Rightarrow> jstring" where
  "str s = map (\<lambda>c. of_nat (of_char c)) s"

definition START_MARKER :: jstring where
  "START_MARKER = [0xFFF7]"

definition END_MARKER :: jstring where
  "END_MARKER = [0xFFF8]"

text \<open>
  The helpers of \<open>./util\<close> and the case folding of the regular-expression engine are
  not part of the sources at hand; they are parameters of the model. \<open>canonicalize\<close> is
  the engine's case folding under the \<open>i\<close> flag, \<open>escapeHtml\<close> and \<open>extractHtmlText\<close>
  are the helpers of the same name. \<open>escapeRegex\<close> makes every character of the query
  literal, which is how the patterns below are read.
\<close>

record util =
  canonicalize :: "16 word \<Rightarrow> 16 word"
  escapeHtml :: "jstring \<Rightarrow> jstring"
  extractHtmlText :: "jstring \<Rightarrow> jstring"

text \<open>Case folding of the basic Latin letters, used for the concrete examples.\<close>

definition upperAscii :: "16 word \<Rightarrow> 16 word" where
  "upperAscii c = (if 0x61 \<le> c \<and> c \<le> 0x7A then c - 0x20 else c)"

text \<open>
  \<open>text.match(re)\<close> for the fuzzy pattern, which is \<open>([^b]*)b\<close> repeated for every
  character \<open>b\<close> of the query, case-insensitive. A group \<open>[^b]*\<close> can only stop right
  before the first \<open>b\<close> that follows, and the first group absorbs any prefix without
  the first query character, so the leftmost match starts at offset 0 and is unique.
  \<open>fuzzyGroups\<close> returns the capture groups, \<open>fuzzyMatch\<close> the whole
  \<open>RegExpMatchArray\<close> (the matched text, then the groups), \<open>None\<close> for \<open>null\<close>.
\<close>

fun fuzzyGroups :: "(16 word \<Rightarrow> 16 word) \<Rightarrow> jstring \<Rightarrow> jstring \<Rightarrow> jstring list option" where
  "fuzzyGroups cn [] text = Some []"
| "fuzzyGroups cn (b # bs) text =
     (case dropWhile (\<lambda>c. cn c \<noteq> cn b) text of
        [] \<Rightarrow> None
      | m # rest \<Rightarrow>
          (case fuzzyGroups cn bs rest of
             None \<Rightarrow> None
           | Some gs \<Rightarrow> Some (takeWhile (\<lambda>c. cn c \<noteq> cn b) text # gs)))"

definition fuzzyMatch :: "(16 word \<Rightarrow> 16 word) \<Rightarrow> jstring \<Rightarrow> jstring \<Rightarrow> jstring list option" where
  "fuzzyMatch cn query text =
     (case fuzzyGroups cn query text of
        None \<Rightarrow> None
      | Some gs \<Rightarrow> Some (take (sum_list (map length gs) + length gs) text # gs))"

text \<open>
  The literal pattern \<open>escapeRegex(filter)\<close> with flag \<open>i\<close>: a case-insensitive
  substring search, \<open>literalExec\<close> being \<open>text.match(re)\<close>; with flags \<open>gi\<close> in
  \<open>text.replace\<close> every occurrence, found from left to right without overlap, is
  handed to the replacement function. The pattern is never empty here: the empty
  filter text is dealt with before a pattern is built.
\<close>

definition matchesAt :: "(16 word \<Rightarrow> 16 word) \<Rightarrow> jstring \<Rightarrow> jstring \<Rightarrow> bool" where
  "matchesAt cn pat text = (map cn (take (length pat) text) = map cn pat)"

fun literalExec :: "(16 word \<Rightarrow> 16 word) \<Rightarrow> jstring \<Rightarrow> jstring \<Rightarrow> jstring list option" where
  "literalExec cn pat [] = (if matchesAt cn pat [] then Some [[]] else None)"
| "literalExec cn pat (c # cs) =
     (if matchesAt cn pat (c # cs) then Some [take (length pat) (c # cs)]
      else literalExec cn pat cs)"

fun replaceMatches ::
  "(16 word \<Rightarrow> 16 word) \<Rightarrow> jstring \<Rightarrow> (jstring \<Rightarrow> jstring) \<Rightarrow> jstring \<Rightarrow> jstring" where
  "replaceMatches cn pat f [] = []"
| "replaceMatches cn pat f (c # cs) =
     (if matchesAt cn pat (c # cs)
      then f (take (length pat) (c # cs)) @ replaceMatches cn pat f (drop (length pat - 1) cs)
      else c # replaceMatches cn pat f cs)"

text \<open>\<open>s.replace(RE, repl)\<close> for a one-character global pattern.\<close>

definition replaceChar :: "16 word \<Rightarrow> jstring \<Rightarrow> jstring \<Rightarrow> jstring" where
  "replaceChar m repl s = concat (map (\<lambda>c. if c = m then repl else [c]) s)"

subsection \<open>Arrays of strings\<close>

text \<open>
  The array \<open>textPoses\<close> of \<open>_markFuzzyMatchedChars\<close>. An element is a string or
  \<open>undefined\<close> (\<open>None\<close>, also for a hole). Reading beyond the end gives \<open>undefined\<close>,
  string concatenation turns \<open>undefined\<close> into the text "undefined", assigning beyond
  the end extends the array with holes, and \<open>join\<close> renders \<open>undefined\<close> as the empty
  string.
\<close>

definition jsGet :: "jstring option list \<Rightarrow> nat \<Rightarrow> jstring option" where
  "jsGet xs v = (if v < length xs then xs ! v else None)"

definition jsToString :: "jstring option \<Rightarrow> jstring" where
  "jsToString e = (case e of None \<Rightarrow> str ''undefined'' | Some s \<Rightarrow> s)"

definition jsSet :: "jstring option list \<Rightarrow> nat \<Rightarrow> jstring \<Rightarrow> jstring option list" where
  "jsSet xs v x =
     (if v < length xs then xs[v := Some x]
      else xs @ replicate (v - length xs) None @ [Some x])"

definition jsJoin :: "jstring option list \<Rightarrow> jstring" where
  "jsJoin xs = concat (map (\<lambda>e. case e of None \<Rightarrow> [] | Some s \<Rightarrow> s) xs)"

definition splitChars :: "jstring \<Rightarrow> jstring option list" where
  "splitChars text = map (\<lambda>c. Some [c]) text"

subsection \<open>\<open>_markFuzzyMatchedChars\<close>\<close>

text \<open>
  The first loop: \<open>gs\<close> are the entries of \<open>matches\<close> from \<open>_matchingArrIdx\<close> on,
  \<open>acc\<close> is \<open>matchingIndices\<close>. \<open>matchingIndices[length - 1] || 0\<close> is 0 for the
  empty array.
\<close>

fun collectIndices :: "jstring list \<Rightarrow> nat \<Rightarrow> nat list \<Rightarrow> nat list" where
  "collectIndices [] k acc = acc"
| "collectIndices (g # gs) k acc =
     collectIndices gs (k + 1)
       (acc @ [length g + (if k = 1 then 0 else 1) + (if acc = [] then 0 else last acc)])"

definition matchingIndices :: "jstring list \<Rightarrow> nat list" where
  "matchingIndices matches = collectIndices (drop 1 matches) 1 []"

definition wrapAt :: "jstring \<Rightarrow> jstring \<Rightarrow> nat \<Rightarrow> jstring option list \<Rightarrow> jstring option list" where
  "wrapAt l r v textPoses = jsSet textPoses v (l @ jsToString (jsGet textPoses v) @ r)"

definition markFuzzyMatchedChars :: "jstring \<Rightarrow> jstring list \<Rightarrow> bool \<Rightarrow> jstring" where
  "markFuzzyMatchedChars text matches escapeTitles =
     (let indices = matchingIndices matches;
          textPoses = splitChars text
      in if escapeTitles
         then jsJoin (fold (wrapAt START_MARKER END_MARKER) indices textPoses)
         else jsJoin (fold (wrapAt (str ''<mark>'') (str ''</mark>'')) indices textPoses))"

text \<open>
  Two reference functions for the properties of the highlighting. \<open>cumulative b gs\<close>
  lists the running sums of the group lengths, advancing by one after every group;
  \<open>markInRange\<close> is the marked text in which exactly the characters at the given
  positions are wrapped and a position beyond the end of the text has no effect.
\<close>

fun cumulative :: "nat \<Rightarrow> jstring list \<Rightarrow> nat list" where
  "cumulative b [] = []"
| "cumulative b (g # gs) = (b + length g) # cumulative (b + length g + 1) gs"




section \<open>Nodes and the tree\<close>

text \<open>
  The value of \<open>node.children\<close> is \<open>null\<close> or an array of nodes. Since it is the
  only structural field, a node's shape is its children value. None of the operations
  below adds or removes nodes; they read the shape and write node fields. A node is
  identified by its position: the child indices on the way from the root, innermost
  first. The root is \<open>[]\<close>, \<open>node.parent\<close> is the tail of the address and
  \<open>parent.children.indexOf(node)\<close> is its head.
\<close>

datatype shape = Null | Array "shape list"

type_synonym addr = "nat list"

fun shapeAt :: "shape \<Rightarrow> addr \<Rightarrow> shape option" where
  "shapeAt sh [] = Some sh"
| "shapeAt sh (i # p) =
     (case shapeAt sh p of
        Some (Array cs) \<Rightarrow> if i < length cs then Some (cs ! i) else None
      | _ \<Rightarrow> None)"

text \<open>
  A numeric field that may have been deleted: \<open>undefined\<close>, a number, or \<open>NaN\<close>
  (the result of \<open>undefined + 1\<close>).
\<close>

datatype jsnum = Undefined | Number nat | NaN

definition incr :: "jsnum \<Rightarrow> jsnum" where
  "incr v = (case v of Number k \<Rightarrow> Number (k + 1) | _ \<Rightarrow> NaN)"

definition truthyNum :: "jsnum \<Rightarrow> bool" where
  "truthyNum v = (case v of Number k \<Rightarrow> 0 < k | _ \<Rightarrow> False)"

definition truthy :: "bool option \<Rightarrow> bool" where
  "truthy v = (v = Some True)"

text \<open>
  The row element of a node, as far as \<open>render\<close> writes it: the class name (kept as
  the list of classes), \<open>style.top\<close> in pixels and the text of the title span. The
  fixed inner markup (checkbox, indentation, expander, icon) and the attachment to the
  node list element are not modelled.
\<close>

record rowDiv =
  className :: "jstring list"
  topPx :: nat
  titleText :: jstring

record node =
  title :: jstring
  expanded :: bool
  lazy :: bool
  selected :: bool
  statusNodeType :: jstring
  match :: "bool option"
  subMatchCount :: jsnum
  titleWithHighlight :: "jstring option"
  filterAutoExpanded :: "bool option"
  subMatchBadge :: bool
  rowIdx :: nat
  rowElem :: "rowDiv option"

text \<open>The filter options, and the \<open>_opts\<close> argument that overrides some of them.\<close>

record filterOpts =
  autoApply :: bool
  autoExpand :: bool
  counter :: bool
  fuzzy :: bool
  hideExpandedCounter :: bool
  hideExpanders :: bool
  highlight :: bool
  leavesOnly :: bool
  mode :: jstring
  noData :: bool

record optsArg =
  argAutoApply :: "bool option"
  argAutoExpand :: "bool option"
  argCounter :: "bool option"
  argFuzzy :: "bool option"
  argHideExpandedCounter :: "bool option"
  argHideExpanders :: "bool option"
  argHighlight :: "bool option"
  argLeavesOnly :: "bool option"
  argMode :: "jstring option"
  argNoData :: "bool option"

definition override :: "'a \<Rightarrow> 'a option \<Rightarrow> 'a" where
  "override d v = (case v of None \<Rightarrow> d | Some x \<Rightarrow> x)"

definition extendOpts :: "filterOpts \<Rightarrow> optsArg \<Rightarrow> filterOpts" where
  "extendOpts d a =
     \<lparr>autoApply = override (autoApply d) (argAutoApply a),
      autoExpand = override (autoExpand d) (argAutoExpand a),
      counter = override (counter d) (argCounter a),
      fuzzy = override (fuzzy d) (argFuzzy a),
      hideExpandedCounter = override (hideExpandedCounter d) (argHideExpandedCounter a),
      hideExpanders = override (hideExpanders d) (argHideExpanders a),
      highlight = override (highlight d) (argHighlight a),
      leavesOnly = override (leavesOnly d) (argLeavesOnly a),
      mode = override (mode d) (argMode a),
      noData = override (noData d) (argNoData a)\<rparr>"

record treeOptions =
  escapeTitles :: bool
  autoCollapse :: bool
  filterOptions :: filterOpts

text \<open>
  A filter is a text or a callback. The callback receives the node and answers
  \<open>false\<close>, \<open>true\<close>, \<open>"skip"\<close> or \<open>"branch"\<close>.
\<close>

datatype pres = PFalse | PTrue | PSkip | PBranch

datatype nfilter = FText jstring | FCallback "addr \<Rightarrow> node \<Rightarrow> pres"

datatype nodeStatusType = StatusOk | StatusLoading | StatusError | StatusNoData

record tree =
  shape :: shape
  nodes :: "addr \<Rightarrow> node"
  options :: treeOptions
  activeNode :: "addr option"
  enableFilter :: bool
  updateEnabled :: bool
  redraws :: nat
  filterMode :: "jstring option"
  lastFilterArgs :: "(nfilter \<times> bool \<times> optsArg) option"
  classList :: "jstring set"
  status :: nodeStatusType
  listHeight :: nat

definition setNode :: "addr \<Rightarrow> (node \<Rightarrow> node) \<Rightarrow> tree \<Rightarrow> tree" where
  "setNode a f t = t\<lparr>nodes := (nodes t)(a := f (nodes t a))\<rparr>"

subsection \<open>\<open>WunderbaumNode.visit\<close> and \<open>visitParents\<close>\<close>

text \<open>
  What a callback returns: \<open>true\<close>, \<open>false\<close>, \<open>"skip"\<close> or nothing. The callback of
  \<open>visit\<close> receives the node (shape and address) and the state it works on.
\<close>

datatype vres = VTrue | VFalse | VSkip | VUndefined

fun visit :: "(shape \<Rightarrow> addr \<Rightarrow> 's \<Rightarrow> vres \<times> 's) \<Rightarrow> bool \<Rightarrow> shape \<Rightarrow> addr \<Rightarrow> 's \<Rightarrow> vres \<times> 's"
  and visitChildren ::
    "(shape \<Rightarrow> addr \<Rightarrow> 's \<Rightarrow> vres \<times> 's) \<Rightarrow> shape list \<Rightarrow> nat \<Rightarrow> addr \<Rightarrow> vres \<Rightarrow> 's \<Rightarrow> vres \<times> 's"
where
  "visit callback includeSelf Null a st =
     (if includeSelf then callback Null a st else (VTrue, st))"
| "visit callback includeSelf (Array cs) a st =
     (let (res, st1) = (if includeSelf then callback (Array cs) a st else (VTrue, st))
      in if includeSelf \<and> (res = VFalse \<or> res = VSkip) then (res, st1)
         else visitChildren callback cs 0 a res st1)"
| "visitChildren callback [] i a res st = (res, st)"
| "visitChildren callback (c # cs) i a res st =
     (let (r, st1) = visit callback True c (i # a) st
      in if r = VFalse then (r, st1) else visitChildren callback cs (i + 1) a r st1)"

text \<open>\<open>Wunderbaum.visit\<close>: all nodes but the root.\<close>

definition treeVisit :: "(shape \<Rightarrow> addr \<Rightarrow> 's \<Rightarrow> vres \<times> 's) \<Rightarrow> shape \<Rightarrow> 's \<Rightarrow> vres \<times> 's" where
  "treeVisit callback root st = visit callback False root [] st"

text \<open>The loop of \<open>visitParents\<close>, from the node whose parent is visited next.\<close>

fun visitParentsFrom :: "(addr \<Rightarrow> 's \<Rightarrow> vres \<times> 's) \<Rightarrow> addr \<Rightarrow> 's \<Rightarrow> bool \<times> 's" where
  "visitParentsFrom callback [] st = (True, st)"
| "visitParentsFrom callback (i # p) st =
     (let (r, st1) = callback p st
      in if r = VFalse then (False, st1) else visitParentsFrom callback p st1)"

definition visitParents :: "(addr \<Rightarrow> 's \<Rightarrow> vres \<times> 's) \<Rightarrow> bool \<Rightarrow> addr \<Rightarrow> 's \<Rightarrow> bool \<times> 's" where
  "visitParents callback includeSelf a st =
     (if includeSelf
      then (let (r, st1) = callback a st
            in if r = VFalse then (False, st1) else visitParentsFrom callback a st1)
      else visitParentsFrom callback a st)"

subsection \<open>\<open>render\<close>, \<open>setDirty\<close>, \<open>setExpanded\<close>\<close>

definition rowClasses :: "node \<Rightarrow> bool \<Rightarrow> jstring list" where
  "rowClasses n active =
     [str ''wb-row'']
     @ (if expanded n then [str ''wb-expanded''] else [])
     @ (if lazy n then [str ''wb-lazy''] else [])
     @ (if selected n then [str ''wb-selected''] else [])
     @ (if active then [str ''wb-active''] else [])"

definition render :: "addr \<Rightarrow> tree \<Rightarrow> tree" where
  "render a t =
     setNode a (\<lambda>n. n\<lparr>rowElem :=
        Some \<lparr>className = rowClasses n (activeNode t = Some a),
              topPx = rowIdx n * 16,
              titleText = title n\<rparr>\<rparr>) t"

definition setDirty :: "addr \<Rightarrow> tree \<Rightarrow> tree" where
  "setDirty a t = render a t"

definition setExpanded :: "addr \<Rightarrow> bool \<Rightarrow> tree \<Rightarrow> tree" where
  "setExpanded a flag t = setDirty a (setNode a (\<lambda>n. n\<lparr>expanded := flag\<rparr>) t)"

section \<open>The filter extension\<close>

text \<open>
  Modelled from the spec: the tree class that \<open>wb_ext_filter.ts\<close> is written against
  (with \<open>options\<close>, \<open>filterMode\<close>, \<open>setStatus\<close>, \<open>enableUpdate\<close>) is not among the
  sources. \<open>enableUpdate(false)\<close> suspends re-rendering and returns the previous
  setting; switching updates back on performs one viewport refresh, counted in
  \<open>redraws\<close>. By the spec the refresh itself writes the render state only.
\<close>

definition enableUpdate :: "bool \<Rightarrow> tree \<Rightarrow> bool \<times> tree" where
  "enableUpdate flag t =
     (if updateEnabled t = flag then (flag, t)
      else if flag then (\<not> flag, t\<lparr>updateEnabled := flag, redraws := redraws t + 1\<rparr>)
      else (\<not> flag, t\<lparr>updateEnabled := flag\<rparr>))"

text \<open>
  Modelled from the spec: \<open>setStatus\<close> of the same missing class. The "no results"
  status is a state of the tree, not a data node.
\<close>

definition setStatus :: "nodeStatusType \<Rightarrow> tree \<Rightarrow> tree" where
  "setStatus s t = t\<lparr>status := s\<rparr>"

definition classToggle :: "jstring \<Rightarrow> bool \<Rightarrow> tree \<Rightarrow> tree" where
  "classToggle name force t =
     t\<lparr>classList := (if force then insert name (classList t) else classList t - {name})\<rparr>"

subsection \<open>The predicate compiled from a filter text\<close>

definition textFilter :: "util \<Rightarrow> filterOpts \<Rightarrow> bool \<Rightarrow> jstring \<Rightarrow> node \<Rightarrow> pres \<times> node" where
  "textFilter u opts escTitles flt n =
     (if title n = [] then (PFalse, n)
      else
        let text = (if escTitles then title n else extractHtmlText u (title n));
            res = (if fuzzy opts then fuzzyMatch (canonicalize u) flt text
                   else literalExec (canonicalize u) flt text)
        in case res of
             None \<Rightarrow> (PFalse, n)
           | Some ms \<Rightarrow>
               if highlight opts then
                 (if escTitles then
                    let temp = (if fuzzy opts then markFuzzyMatchedChars text ms escTitles
                                else replaceMatches (canonicalize u) flt
                                       (\<lambda>s. START_MARKER @ s @ END_MARKER) text)
                    in (PTrue, n\<lparr>titleWithHighlight :=
                          Some (replaceChar 0xFFF8 (str ''</mark>'')
                                 (replaceChar 0xFFF7 (str ''<mark>'') (escapeHtml u temp)))\<rparr>)
                  else if fuzzy opts then
                    (PTrue, n\<lparr>titleWithHighlight := Some (markFuzzyMatchedChars text ms False)\<rparr>)
                  else
                    (PTrue, n\<lparr>titleWithHighlight :=
                        Some (replaceMatches (canonicalize u) flt
                               (\<lambda>s. str ''<mark>'' @ s @ str ''</mark>'') text)\<rparr>))
               else (PTrue, n))"

text \<open>Calling the filter on a node: the callback as it is, or the compiled text predicate.\<close>

definition callFilter ::
  "util \<Rightarrow> filterOpts \<Rightarrow> bool \<Rightarrow> nfilter \<Rightarrow> addr \<Rightarrow> tree \<Rightarrow> pres \<times> tree" where
  "callFilter u opts escTitles flt a t =
     (case flt of
        FCallback f \<Rightarrow> (f a (nodes t a), t)
      | FText s \<Rightarrow>
          (let (res, n) = textFilter u opts escTitles s (nodes t a)
           in (res, setNode a (\<lambda>_. n) t)))"

subsection \<open>\<open>_applyFilterImpl\<close>\<close>

text \<open>The callback of the reset pass.\<close>

definition resetNode :: "shape \<Rightarrow> addr \<Rightarrow> tree \<Rightarrow> vres \<times> tree" where
  "resetNode sh a t =
     (VUndefined,
      setNode a (\<lambda>n. n\<lparr>match := None, titleWithHighlight := None, subMatchCount := Number 0\<rparr>) t)"

text \<open>\<open>node.visit(function (c) { c.match = false; }, true)\<close> of the "skip" branch.\<close>

definition markSkipped :: "shape \<Rightarrow> addr \<Rightarrow> tree \<Rightarrow> tree" where
  "markSkipped sh a t =
     snd (visit (\<lambda>c x t. (VUndefined, setNode x (\<lambda>n. n\<lparr>match := Some False\<rparr>) t)) True sh a t)"

text \<open>The callback handed to \<open>visitParents\<close> for a matched node \<open>a\<close>.\<close>

definition bumpParent :: "bool \<Rightarrow> bool \<Rightarrow> addr \<Rightarrow> addr \<Rightarrow> tree \<Rightarrow> vres \<times> tree" where
  "bumpParent autoExp matchedByBranch a p t =
     (let t1 = (if p \<noteq> a
                then setNode p (\<lambda>n. n\<lparr>subMatchCount := incr (subMatchCount n)\<rparr>) t
                else t)
      in if autoExp \<and> \<not> matchedByBranch \<and> \<not> expanded (nodes t1 p)
         then (VUndefined,
               setNode p (\<lambda>n. n\<lparr>filterAutoExpanded := Some True\<rparr>) (setExpanded p True t1))
         else (VUndefined, t1))"

text \<open>
  The callback of the evaluation pass; the state is the tree and the local \<open>count\<close>.
  The pass never calls it on the root, so \<open>node.parent\<close> is the tail of the address.
\<close>

definition evalNode ::
  "(addr \<Rightarrow> tree \<Rightarrow> pres \<times> tree) \<Rightarrow> bool \<Rightarrow> bool \<Rightarrow> filterOpts \<Rightarrow>
   shape \<Rightarrow> addr \<Rightarrow> tree \<times> nat \<Rightarrow> vres \<times> (tree \<times> nat)" where
  "evalNode filterFn branchMode leavesOnlyEff opts sh a s =
     (let (t, count) = s
      in if leavesOnlyEff \<and> sh \<noteq> Null then (VUndefined, (t, count))
         else
           let (res, t1) = filterFn a t
           in if res = PSkip then (VSkip, (markSkipped sh a t1, count))
              else
                let matchedByBranch =
                      ((branchMode \<or> res = PBranch) \<and> truthy (match (nodes t1 (tl a))));
                    res1 = (if matchedByBranch then PTrue else res)
                in if res1 \<noteq> PFalse
                   then
                     let t2 = setNode a (\<lambda>n. n\<lparr>match := Some True\<rparr>) t1;
                         t3 = snd (visitParents
                                     (bumpParent (autoExpand opts) matchedByBranch a) True a t2)
                     in (VUndefined, (t3, count + 1))
                   else (VUndefined, (t1, count)))"

text \<open>The callback of the visit in \<open>clearFilter\<close>.\<close>

definition clearNode :: "shape \<Rightarrow> addr \<Rightarrow> tree \<Rightarrow> vres \<times> tree" where
  "clearNode sh a t =
     (let n = nodes t a;
          t1 = (if truthy (match n) \<and> rowElem n \<noteq> None
                then setNode a (\<lambda>n. n\<lparr>rowElem :=
                       map_option (\<lambda>r. r\<lparr>titleText := title n\<rparr>) (rowElem n)\<rparr>) t
                else t);
          t2 = setNode a (\<lambda>n. n\<lparr>match := None, subMatchCount := Undefined,
                                 titleWithHighlight := None\<rparr>) t1;
          t3 = (if subMatchBadge (nodes t2 a)
                then setNode a (\<lambda>n. n\<lparr>subMatchBadge := False\<rparr>) t2 else t2);
          t4 = (if truthy (filterAutoExpanded (nodes t3 a)) \<and> expanded (nodes t3 a)
                then setExpanded a False t3 else t3)
      in (VUndefined, setNode a (\<lambda>n. n\<lparr>filterAutoExpanded := None\<rparr>) t4))"

definition clearFilter :: "tree \<Rightarrow> tree" where
  "clearFilter t =
     (let (prevEnableUpdate, t1) = enableUpdate False t;
          t2 = setStatus StatusOk t1;
          t3 = setNode [] (\<lambda>n. n\<lparr>match := None, subMatchCount := Undefined\<rparr>) t2;
          t4 = snd (treeVisit clearNode (shape t3) t3);
          t5 = t4\<lparr>filterMode := None, lastFilterArgs := None\<rparr>;
          t6 = t5\<lparr>classList := classList t5 - {str ''wb-ext-filter-dimm'', str ''wb-ext-filter-hide''}\<rparr>
      in snd (enableUpdate prevEnableUpdate t6))"

definition isEmptyText :: "nfilter \<Rightarrow> bool" where
  "isEmptyText flt = (case flt of FText s \<Rightarrow> s = [] | FCallback f \<Rightarrow> False)"

definition applyFilterImpl ::
  "util \<Rightarrow> nfilter \<Rightarrow> bool \<Rightarrow> optsArg \<Rightarrow> tree \<Rightarrow> nat option \<times> tree" where
  "applyFilterImpl u flt branchMode args t =
     (let treeOpts = options t;
          escTitles = escapeTitles treeOpts;
          prevAutoCollapse = autoCollapse treeOpts;
          opts = extendOpts (filterOptions treeOpts) args;
          hideMode = (mode opts = str ''hide'');
          leavesOnlyEff = (leavesOnly opts \<and> \<not> branchMode)
      in if isEmptyText flt then (None, clearFilter t)
         else
           let t1 = t\<lparr>filterMode := Some (mode opts),
                       lastFilterArgs := Some (flt, branchMode, args)\<rparr>;
               (prevEnableUpdate, t2) = enableUpdate False t1;
               t3 = classToggle (str ''wb-ext-filter-hide-expanders'') (hideExpanders opts)
                      (classToggle (str ''wb-ext-filter-dimm'') (\<not> hideMode)
                        (classToggle (str ''wb-ext-filter-hide'') hideMode t2));
               t4 = setNode [] (\<lambda>n. n\<lparr>subMatchCount := Number 0\<rparr>) t3;
               t5 = snd (treeVisit resetNode (shape t4) t4);
               t6 = setStatus StatusOk t5;
               t7 = t6\<lparr>options := (options t6)\<lparr>autoCollapse := False\<rparr>\<rparr>;
               (t8, count) = snd (treeVisit
                                 (evalNode (callFilter u opts escTitles flt) branchMode
                                    leavesOnlyEff opts)
                                 (shape t7) (t7, 0));
               t9 = t8\<lparr>options := (options t8)\<lparr>autoCollapse := prevAutoCollapse\<rparr>\<rparr>;
               t10 = (if count = 0 \<and> noData opts \<and> hideMode
                      then setStatus StatusNoData t9 else t9)
           in (Some count, snd (enableUpdate prevEnableUpdate t10)))"

definition filterNodes :: "util \<Rightarrow> nfilter \<Rightarrow> optsArg \<Rightarrow> tree \<Rightarrow> nat option \<times> tree" where
  "filterNodes u flt args t = applyFilterImpl u flt False args t"

definition filterBranches :: "util \<Rightarrow> nfilter \<Rightarrow> optsArg \<Rightarrow> tree \<Rightarrow> nat option \<times> tree" where
  "filterBranches u flt args t = applyFilterImpl u flt True args t"

section \<open>Reference notions for the properties\<close>

text \<open>
  The nodes of a subtree in document order, each with its shape: the node at address
  \<open>a\<close> first, then the subtrees of its children. \<open>treeNodes\<close> are the nodes of the
  tree without the root, which is what \<open>Wunderbaum.visit\<close> walks over.
\<close>

fun subnodes :: "shape \<Rightarrow> addr \<Rightarrow> (addr \<times> shape) list"
  and subnodesList :: "shape list \<Rightarrow> nat \<Rightarrow> addr \<Rightarrow> (addr \<times> shape) list"
where
  "subnodes Null a = [(a, Null)]"
| "subnodes (Array cs) a = (a, Array cs) # subnodesList cs 0 a"
| "subnodesList [] i a = []"
| "subnodesList (c # cs) i a = subnodes c (i # a) @ subnodesList cs (i + 1) a"

definition descendants :: "shape \<Rightarrow> addr \<Rightarrow> (addr \<times> shape) list" where
  "descendants sh a = tl (subnodes sh a)"



subsection \<open>Example data\<close>

text \<open>
  A node as the constructor makes it, default options, and the tree
  \<open>[A[B, C[D]], E]\<close> of the spec's scenario.
\<close>

definition newNode :: "string \<Rightarrow> node" where
  "newNode s = \<lparr>title = str s, expanded = False, lazy = False, selected = False,
     statusNodeType = [], match = Some False, subMatchCount = Number 0,
     titleWithHighlight = None, filterAutoExpanded = None, subMatchBadge = False,
     rowIdx = 0, rowElem = None\<rparr>"

definition defaultFilterOpts :: filterOpts where
  "defaultFilterOpts = \<lparr>autoApply = True, autoExpand = False, counter = True, fuzzy = False,
     hideExpandedCounter = True, hideExpanders = False, highlight = True, leavesOnly = False,
     mode = str ''hide'', noData = True\<rparr>"


definition newTree :: "shape \<Rightarrow> (addr \<Rightarrow> node) \<Rightarrow> tree" where
  "newTree sh ns = \<lparr>shape = sh, nodes = ns,
     options = \<lparr>escapeTitles = True, autoCollapse = False, filterOptions = defaultFilterOpts\<rparr>,
     activeNode = None, enableFilter = False, updateEnabled = True, redraws = 0,
     filterMode = None, lastFilterArgs = None, classList = {}, status = StatusOk,
     listHeight = 0\<rparr>"


definition exShape :: shape where
  "exShape = Array [Array [Null, Array [Null]], Null]"

definition exNodes :: "addr \<Rightarrow> node" where
  "exNodes a =
     (if a = [0] then newNode ''A'' else if a = [0, 0] then newNode ''B''
      else if a = [1, 0] then newNode ''C'' else if a = [0, 1, 0] then newNode ''D''
      else if a = [1] then newNode ''E'' else newNode ''__root__'')"

definition exTree :: tree where
  "exTree = newTree exShape exNodes"

subsection \<open>Traversals that are never stopped\<close>

text \<open>
  None of the callbacks of the filter returns \<open>false\<close>. For such a callback the state
  after \<open>visit\<close> (with \<open>includeSelf\<close>) is \<open>walk\<close>: the callback on the node, then,
  unless it answered \<open>"skip"\<close>, the children from left to right.
\<close>

fun walk :: "(shape \<Rightarrow> addr \<Rightarrow> 's \<Rightarrow> vres \<times> 's) \<Rightarrow> shape \<Rightarrow> addr \<Rightarrow> 's \<Rightarrow> 's"
  and walkList :: "(shape \<Rightarrow> addr \<Rightarrow> 's \<Rightarrow> vres \<times> 's) \<Rightarrow> shape list \<Rightarrow> nat \<Rightarrow> addr \<Rightarrow> 's \<Rightarrow> 's"
where
  "walk cb Null a st = snd (cb Null a st)"
| "walk cb (Array cs) a st =
     (if fst (cb (Array cs) a st) = VSkip then snd (cb (Array cs) a st)
      else walkList cb cs 0 a (snd (cb (Array cs) a st)))"
| "walkList cb [] i a st = st"
| "walkList cb (c # cs) i a st = walkList cb cs (i + 1) a (walk cb c (i # a) st)"

definition walkTree :: "(shape \<Rightarrow> addr \<Rightarrow> 's \<Rightarrow> vres \<times> 's) \<Rightarrow> shape \<Rightarrow> 's \<Rightarrow> 's" where
  "walkTree cb root st = (case root of Null \<Rightarrow> st | Array cs \<Rightarrow> walkList cb cs 0 [] st)"

subsection \<open>Closed forms of the filter's node updates\<close>


definition bumpNode :: "bool \<Rightarrow> bool \<Rightarrow> bool \<Rightarrow> node \<Rightarrow> node" where
  "bumpNode self expand active n =
     (let n1 = (if self then n else n\<lparr>subMatchCount := incr (subMatchCount n)\<rparr>)
      in if expand \<and> \<not> expanded n1
         then n1\<lparr>expanded := True,
                 rowElem := Some \<lparr>className = rowClasses (n1\<lparr>expanded := True\<rparr>) active,
                                 topPx = rowIdx n1 * 16, titleText = title n1\<rparr>,
                 filterAutoExpanded := Some True\<rparr>
         else n1)"

definition sameFrame :: "tree \<Rightarrow> tree \<Rightarrow> bool" where
  "sameFrame t t' = (t' = t\<lparr>nodes := nodes t'\<rparr>)"

subsection \<open>The two passes of \<open>_applyFilterImpl\<close>\<close>

text \<open>
  \<open>resetFields\<close> is what the reset pass does to a node, \<open>beforeEvaluation\<close> the tree
  when the evaluation pass starts, and \<open>evaluation\<close> the tree and the counter when it
  ends. \<open>cleared\<close> says that a node carries no filter state.
\<close>

definition resetFields :: "node \<Rightarrow> node" where
  "resetFields n = n\<lparr>match := None, titleWithHighlight := None, subMatchCount := Number 0\<rparr>"

definition beforeEvaluation :: "nfilter \<Rightarrow> bool \<Rightarrow> optsArg \<Rightarrow> tree \<Rightarrow> tree" where
  "beforeEvaluation flt branchMode args t =
     (let opts = extendOpts (filterOptions (options t)) args;
          hideMode = (mode opts = str ''hide'');
          t1 = t\<lparr>filterMode := Some (mode opts),
                  lastFilterArgs := Some (flt, branchMode, args)\<rparr>;
          t2 = snd (enableUpdate False t1);
          t3 = classToggle (str ''wb-ext-filter-hide-expanders'') (hideExpanders opts)
                 (classToggle (str ''wb-ext-filter-dimm'') (\<not> hideMode)
                   (classToggle (str ''wb-ext-filter-hide'') hideMode t2));
          t4 = setNode [] (\<lambda>n. n\<lparr>subMatchCount := Number 0\<rparr>) t3;
          t5 = snd (treeVisit resetNode (shape t4) t4);
          t6 = setStatus StatusOk t5
      in t6\<lparr>options := (options t6)\<lparr>autoCollapse := False\<rparr>\<rparr>)"




subsection \<open>What the evaluation pass leaves behind\<close>

text \<open>The number of nodes of a list whose \<open>match\<close> flag is \<open>true\<close>.\<close>

definition matched :: "tree \<Rightarrow> (addr \<times> shape) list \<Rightarrow> nat" where
  "matched t xs = length (filter (\<lambda>(x, sh). truthy (match (nodes t x))) xs)"









section \<open>Rows: \<open>visitRows\<close>, \<open>_visitRowsUp\<close> and \<open>renumber\<close>\<close>

text \<open>
  The exceptions of the traversal and rendering code: a property read or call on
  \<open>null\<close> or \<open>undefined\<close>, and a failed \<open>assert\<close>.
\<close>

datatype error = TypeError | AssertionError

text \<open>
  \<open>hasChildren\<close> answers \<open>true\<close>, \<open>false\<close> or \<open>undefined\<close> (for a lazy node that is
  not loaded, or that holds a single status node).
\<close>

definition isStatusNode :: "node \<Rightarrow> bool" where
  "isStatusNode n = (statusNodeType n \<noteq> [])"

definition hasChildren :: "tree \<Rightarrow> shape \<Rightarrow> addr \<Rightarrow> bool option" where
  "hasChildren t sh a =
     (if lazy (nodes t a)
      then (case sh of
              Null \<Rightarrow> None
            | Array cs \<Rightarrow>
                if length cs = 0 then Some False
                else if length cs = 1 \<and> isStatusNode (nodes t (0 # a)) then None
                else Some True)
      else Some (case sh of Null \<Rightarrow> False | Array cs \<Rightarrow> cs \<noteq> []))"

text \<open>
  The options of \<open>visitRows\<close>. A call without options behaves like one with \<open>{}\<close>.
\<close>

record rowOpts =
  optStart :: "addr option"
  optReverse :: bool
  optIncludeSelf :: "bool option"
  optIncludeHidden :: bool

definition noRowOpts :: rowOpts where
  "noRowOpts = \<lparr>optStart = None, optReverse = False, optIncludeSelf = None,
     optIncludeHidden = False\<rparr>"

subsection \<open>Top down\<close>

text \<open>
  The callback of \<open>visitRows\<close> receives the node and works on the tree and a state
  of its own; it writes node fields, not the structure. \<open>rowHidden\<close> is the test
  \<open>checkFilter && !node.match && !node.subMatchCount\<close>, \<open>nonEmpty\<close> is
  \<open>node.children && node.children.length\<close>, and \<open>rowFn\<close> is the function handed to
  \<open>node.visit\<close> for the children of an open node.
\<close>

definition rowHidden :: "bool \<Rightarrow> tree \<Rightarrow> addr \<Rightarrow> bool" where
  "rowHidden checkFilter t a =
     (checkFilter \<and> \<not> truthy (match (nodes t a)) \<and> \<not> truthyNum (subMatchCount (nodes t a)))"

definition nonEmpty :: "shape \<Rightarrow> bool" where
  "nonEmpty sh = (case sh of Null \<Rightarrow> False | Array cs \<Rightarrow> cs \<noteq> [])"

definition rowFn ::
  "(addr \<Rightarrow> tree \<times> 'a \<Rightarrow> vres \<times> tree \<times> 'a) \<Rightarrow> bool \<Rightarrow> bool \<Rightarrow>
   shape \<Rightarrow> addr \<Rightarrow> tree \<times> 'a \<Rightarrow> vres \<times> tree \<times> 'a" where
  "rowFn callback includeHidden checkFilter sh a st =
     (if rowHidden checkFilter (fst st) a then (VSkip, st)
      else let (r, st1) = callback a st
           in if r = VFalse then (VFalse, st1)
              else if \<not> includeHidden \<and> sh \<noteq> Null \<and> \<not> expanded (nodes (fst st1) a)
                   then (VSkip, st1)
                   else (VUndefined, st1))"

text \<open>
  The \<open>for\<close> loop over the siblings from index \<open>i\<close> on, and the \<open>while\<close> loop
  that continues with the later siblings of each ancestor. The first component of the
  result of \<open>siblingsLoop\<close> says whether the traversal goes on, the second is
  \<open>skipFirstNode\<close>. A start node that is not among its parent's children fails the
  assertion on \<open>nextIdx\<close>.
\<close>

fun siblingsLoop ::
  "(addr \<Rightarrow> tree \<times> 'a \<Rightarrow> vres \<times> tree \<times> 'a) \<Rightarrow> bool \<Rightarrow> bool \<Rightarrow>
   shape list \<Rightarrow> nat \<Rightarrow> addr \<Rightarrow> bool \<Rightarrow> tree \<times> 'a \<Rightarrow> bool \<times> bool \<times> tree \<times> 'a" where
  "siblingsLoop callback includeHidden checkFilter [] i p skipFirstNode st =
     (True, skipFirstNode, st)"
| "siblingsLoop callback includeHidden checkFilter (c # cs) i p skipFirstNode st =
     (if rowHidden checkFilter (fst st) (i # p)
      then siblingsLoop callback includeHidden checkFilter cs (i + 1) p skipFirstNode st
      else let (r, st1) = (if skipFirstNode then (VUndefined, st) else callback (i # p) st)
           in if r = VFalse then (False, False, st1)
              else if nonEmpty c \<and> (includeHidden \<or> expanded (nodes (fst st1) (i # p)))
                   then let (res, st2) = visit (rowFn callback includeHidden checkFilter) False c (i # p) st1
                        in if res = VFalse then (False, False, st2)
                           else siblingsLoop callback includeHidden checkFilter cs (i + 1) p False st2
                   else siblingsLoop callback includeHidden checkFilter cs (i + 1) p False st1)"

fun parentsLoop ::
  "(addr \<Rightarrow> tree \<times> 'a \<Rightarrow> vres \<times> tree \<times> 'a) \<Rightarrow> bool \<Rightarrow> bool \<Rightarrow>
   shape \<Rightarrow> addr \<Rightarrow> nat \<Rightarrow> bool \<Rightarrow> tree \<times> 'a \<Rightarrow> error + bool \<times> tree \<times> 'a" where
  "parentsLoop callback includeHidden checkFilter root [] siblingOfs skipFirstNode st =
     Inr (True, st)"
| "parentsLoop callback includeHidden checkFilter root (i # p) siblingOfs skipFirstNode st =
     (case shapeAt root p of
        Some (Array cs) \<Rightarrow>
          if i < length cs
          then (let (ok, skip1, st1) =
                      siblingsLoop callback includeHidden checkFilter
                        (drop (i + siblingOfs) cs) (i + siblingOfs) p skipFirstNode st
                in if ok then parentsLoop callback includeHidden checkFilter root p 1 skip1 st1
                   else Inr (False, st1))
          else Inl AssertionError
      | _ \<Rightarrow> Inl TypeError)"

subsection \<open>Bottom up\<close>

text \<open>
  Modelled from the spec: \<open>_visitRowsUp\<close> calls \<open>node.isVisible()\<close>, and the node
  class among the sources has no such method. By the visibility rules of the spec a
  node is visible when every ancestor below the root is expanded and, while a filter is
  active, the node and each of these ancestors is a match or has a non-zero
  \<open>subMatchCount\<close>.
\<close>

fun isVisible :: "tree \<Rightarrow> addr \<Rightarrow> bool" where
  "isVisible t [] = True"
| "isVisible t (i # p) =
     (\<not> rowHidden (enableFilter t) t (i # p) \<and> (p = [] \<or> expanded (nodes t p) \<and> isVisible t p))"

text \<open>
  The inner loop of \<open>_visitRowsUp\<close>: from the previous sibling down to its last
  descendant, as long as the node is open and has children.
\<close>

function descendLast :: "bool \<Rightarrow> tree \<Rightarrow> shape \<Rightarrow> addr \<Rightarrow> addr" where
  "descendLast includeHidden t Null a = a"
| "descendLast includeHidden t (Array cs) a =
     (if (includeHidden \<or> expanded (nodes t a)) \<and> cs \<noteq> []
      then descendLast includeHidden t (last cs) ((length cs - 1) # a)
      else a)"
  by pat_completeness auto
termination
proof (relation "measure (\<lambda>(h, t, sh, a). size sh)")
  show "wf (measure (\<lambda>(h, t, sh, a). size sh))" by simp
next
  fix includeHidden :: bool and t :: tree and cs :: "shape list" and a :: addr
  assume "(includeHidden \<or> expanded (nodes t a)) \<and> cs \<noteq> []"
  then have "cs \<noteq> []" by simp
  then have "size (last cs) \<le> size_list size cs"
    by (induction cs) auto
  then show "((includeHidden, t, last cs, (length cs - 1) # a), (includeHidden, t, Array cs, a))
      \<in> measure (\<lambda>(h, t, sh, a). size sh)"
    by simp
qed

text \<open>
  One round of the outer loop up to the visibility test: the parent if the node is
  the first sibling (\<open>None\<close> if that parent is the root, where the loop ends), the last
  descendant of the previous sibling otherwise. A node without a parent, or one that
  is not among its parent's children, is an error. The outer loop goes on while the
  node it reached is invisible; it is a partial function.
\<close>

definition prevNode :: "bool \<Rightarrow> tree \<Rightarrow> shape \<Rightarrow> addr \<Rightarrow> error + addr option" where
  "prevNode includeHidden t root node =
     (case node of
        [] \<Rightarrow> Inl TypeError
      | i # p \<Rightarrow>
          (case shapeAt root p of
             Some (Array cs) \<Rightarrow>
               if i < length cs
               then (if i = 0 then (if p = [] then Inr None else Inr (Some p))
                     else Inr (Some (descendLast includeHidden t (cs ! (i - 1)) ((i - 1) # p))))
               else Inl TypeError
           | _ \<Rightarrow> Inl TypeError))"

partial_function (option) visitRowsUpLoop ::
  "(addr \<Rightarrow> tree \<times> 'a \<Rightarrow> vres \<times> tree \<times> 'a) \<Rightarrow> bool \<Rightarrow> shape \<Rightarrow> addr \<Rightarrow>
   tree \<times> 'a \<Rightarrow> (error + bool \<times> tree \<times> 'a) option" where
  "visitRowsUpLoop callback includeHidden root node st =
     (case prevNode includeHidden (fst st) root node of
        Inl e \<Rightarrow> Some (Inl e)
      | Inr None \<Rightarrow> Some (Inr (True, st))
      | Inr (Some n) \<Rightarrow>
          if \<not> includeHidden \<and> \<not> isVisible (fst st) n
          then visitRowsUpLoop callback includeHidden root n st
          else Some (Inr (fst (callback n st) \<noteq> VFalse, snd (callback n st))))"

declare visitRowsUpLoop.simps [code]

definition visitRowsUp ::
  "(addr \<Rightarrow> tree \<times> 'a \<Rightarrow> vres \<times> tree \<times> 'a) \<Rightarrow> rowOpts \<Rightarrow> tree \<times> 'a \<Rightarrow>
   (error + bool \<times> tree \<times> 'a) option" where
  "visitRowsUp callback opts st =
     visitRowsUpLoop callback (optIncludeHidden opts) (shape (fst st))
       (case optStart opts of Some s \<Rightarrow> s | None \<Rightarrow> [0]) st"

subsection \<open>\<open>visitRows\<close> and \<open>renumber\<close>\<close>

definition visitRows ::
  "(addr \<Rightarrow> tree \<times> 'a \<Rightarrow> vres \<times> tree \<times> 'a) \<Rightarrow> rowOpts \<Rightarrow> tree \<times> 'a \<Rightarrow>
   (error + bool \<times> tree \<times> 'a) option" where
  "visitRows callback opts st =
     (let t = fst st
      in if \<not> truthy (hasChildren t (shape t) []) then Some (Inr (False, st))
         else if optReverse opts then visitRowsUp callback (opts\<lparr>optReverse := False\<rparr>) st
         else Some (parentsLoop callback (optIncludeHidden opts)
                 (\<not> optIncludeHidden opts \<and> enableFilter t) (shape t)
                 (case optStart opts of Some s \<Rightarrow> s | None \<Rightarrow> [0]) 0
                 (optIncludeSelf opts = Some False) st))"

text \<open>
  The range of \<open>renumber\<close>: two numbers of any ordered number type that holds the
  row indices (\<open>updateViewport\<close> passes fractions). \<open>renumberRow\<close> is the callback, on
  the tree and the locals \<open>idx\<close>, \<open>top\<close> and \<open>modified\<close>. \<open>renumber\<close> starts with
  \<open>this.root.children[1].expanded = true\<close>, which throws unless the root has two
  children.
\<close>

record 'r range =
  startIdx :: 'r
  endIdx :: 'r

definition renumberRow ::
  "('r :: linordered_semidom) range \<Rightarrow> addr \<Rightarrow> tree \<times> nat \<times> nat \<times> bool \<Rightarrow>
   vres \<times> tree \<times> nat \<times> nat \<times> bool" where
  "renumberRow opts a st =
     (let (t, idx, topY, modified) = st;
          prevIdx = rowIdx (nodes t a);
          t1 = (if prevIdx \<noteq> idx then setNode a (\<lambda>n. n\<lparr>rowIdx := idx\<rparr>) t else t);
          modified1 = (prevIdx \<noteq> idx \<or> modified);
          t2 = (if of_nat idx < startIdx opts \<or> of_nat idx > endIdx opts
                then (if rowElem (nodes t1 a) \<noteq> None
                      then setNode a (\<lambda>n. n\<lparr>rowElem := None\<rparr>) t1 else t1)
                else if rowElem (nodes t1 a) = None \<or> prevIdx \<noteq> idx then render a t1
                else t1)
      in (VUndefined, t2, idx + 1, topY + 16, modified1))"

definition renumber :: "('r :: linordered_semidom) range \<Rightarrow> tree \<Rightarrow> (error + bool \<times> tree) option" where
  "renumber opts t =
     (case shape t of
        Null \<Rightarrow> Some (Inl TypeError)
      | Array cs \<Rightarrow>
          if 1 < length cs
          then (let t1 = setNode [1] (\<lambda>n. n\<lparr>expanded := True\<rparr>) t
                in case visitRows (renumberRow opts) noRowOpts (t1, 0, 0, False) of
                     None \<Rightarrow> None
                   | Some (Inl e) \<Rightarrow> Some (Inl e)
                   | Some (Inr (r, t2, idx, topY, modified)) \<Rightarrow>
                       Some (Inr (modified, t2\<lparr>listHeight := topY\<rparr>)))
          else Some (Inl TypeError))"

subsection \<open>Reference notions for rows\<close>



definition collect :: "addr \<Rightarrow> tree \<times> addr list \<Rightarrow> vres \<times> tree \<times> addr list" where
  "collect a st = (VUndefined, fst st, snd st @ [a])"





text \<open>
  The tree after a call of \<open>renumber\<close> (the tree itself if the call throws, which
  it does before it writes anything), the exception of a call, and the tree when
  \<open>renumber\<close> reaches \<open>visitRows\<close>.
\<close>

definition treeAfter :: "tree \<Rightarrow> (error + bool \<times> tree) option \<Rightarrow> tree" where
  "treeAfter t r = (case r of Some (Inr (m, t')) \<Rightarrow> t' | _ \<Rightarrow> t)"

definition thrown :: "(error + 'a) option \<Rightarrow> error option" where
  "thrown r = (case r of Some (Inl e) \<Rightarrow> Some e | _ \<Rightarrow> None)"


text \<open>
  Two ranges, and a tree as two calls leave it: on the example tree \<open>A\<close> is
  expanded and the rows are numbered and rendered, then \<open>A\<close> is collapsed.
\<close>

definition wideRange :: "int range" where
  "wideRange = \<lparr>startIdx = 0, endIdx = 10\<rparr>"




section \<open>Properties of the fuzzy highlighting\<close>

lemma collectIndices_cumulative:
  "collectIndices gs (Suc (length acc)) acc =
     acc @ cumulative (if acc = [] then 0 else last acc + 1) gs"
proof (induction gs arbitrary: acc)
  case Nil
  show ?case by simp
next
  case (Cons g gs)
  let ?x = "length g + (if acc = [] then 0 else 1) + (if acc = [] then 0 else last acc)"
  have "collectIndices (g # gs) (Suc (length acc)) acc =
          collectIndices gs (Suc (length (acc @ [?x]))) (acc @ [?x])"
    by simp
  also have "\<dots> = (acc @ [?x]) @ cumulative (?x + 1) gs"
    unfolding Cons.IH by simp
  finally show ?case by (simp add: add.commute)
qed

lemma matchingIndices_cumulative: "matchingIndices (w # gs) = cumulative 0 gs"
  using collectIndices_cumulative [of gs "[]"] by (simp add: matchingIndices_def)

lemma cumulative_closed:
  "cumulative b gs = map (\<lambda>i. b + sum_list (map length (take (Suc i) gs)) + i) [0..<length gs]"
proof (induction gs arbitrary: b)
  case Nil
  show ?case by simp
next
  case (Cons g gs)
  show ?case
    unfolding cumulative.simps Cons.IH length_Cons map_upt_Suc
    by simp
qed

lemma cumulative_lower: "x \<in> set (cumulative b gs) \<Longrightarrow> b \<le> x"
  by (induction gs arbitrary: b) fastforce+

lemma cumulative_upper:
  "x \<in> set (cumulative b gs) \<Longrightarrow> x < b + sum_list (map length gs) + length gs"
  by (induction gs arbitrary: b) fastforce+

lemma cumulative_increasing: "sorted_wrt (<) (cumulative b gs)"
proof (induction gs arbitrary: b)
  case Nil
  show ?case by simp
next
  case (Cons g gs)
  have "\<forall>x \<in> set (cumulative (b + length g + 1) gs). b + length g < x"
    using cumulative_lower by fastforce
  with Cons.IH show ?case by simp
qed

lemma fuzzy_example_match:
  "fuzzyMatch upperAscii (str ''fb'') (str ''FooBar'') = Some [str ''FooB'', str '''', str ''oo'']"
  by (simp add: fuzzyMatch_def str_def upperAscii_def)

lemma fuzzy_example_indices: "matchingIndices [str ''FooB'', str '''', str ''oo''] = [0, 3]"
  by (simp add: matchingIndices_def str_def)

lemma fuzzy_example_marked:
  "markFuzzyMatchedChars (str ''FooBar'') [str ''FooB'', str '''', str ''oo''] False =
     str ''<mark>F</mark>oo<mark>B</mark>ar''"
  by (simp add: markFuzzyMatchedChars_def matchingIndices_def str_def splitChars_def wrapAt_def
      jsSet_def jsGet_def jsToString_def jsJoin_def)

text \<open>
  Claim C7. In \<open>_markFuzzyMatchedChars\<close> the index computed for the query character
  number \<open>i\<close> (counted from 0) is the total length of the capture groups up to and
  including group \<open>i\<close>, plus one for each of the \<open>i\<close> characters matched before;
  the indices are strictly increasing; and the fuzzy query "fb" matches the title
  "FooBar" with the indices 0 and 3, which marks \<open>F\<close> and \<open>B\<close>.
\<close>

theorem fuzzy_indices_cumulative:
  "matchingIndices (w # gs) =
     map (\<lambda>i. sum_list (map length (take (Suc i) gs)) + i) [0..<length gs]
   \<and> sorted_wrt (<) (matchingIndices (w # gs))
   \<and> fuzzyMatch upperAscii (str ''fb'') (str ''FooBar'') = Some [str ''FooB'', str '''', str ''oo'']
   \<and> matchingIndices [str ''FooB'', str '''', str ''oo''] = [0, 3]
   \<and> markFuzzyMatchedChars (str ''FooBar'') [str ''FooB'', str '''', str ''oo''] False =
       str ''<mark>F</mark>oo<mark>B</mark>ar''"
proof -
  have "matchingIndices (w # gs) =
          map (\<lambda>i. sum_list (map length (take (Suc i) gs)) + i) [0..<length gs]"
    unfolding matchingIndices_cumulative cumulative_closed by simp
  moreover have "sorted_wrt (<) (matchingIndices (w # gs))"
    unfolding matchingIndices_cumulative by (rule cumulative_increasing)
  ultimately show ?thesis
    using fuzzy_example_match fuzzy_example_indices fuzzy_example_marked by blast
qed







section \<open>Basic facts about the traversals and the node updates\<close>



lemma visit_walk:
  fixes cb :: "shape \<Rightarrow> addr \<Rightarrow> 's \<Rightarrow> vres \<times> 's"
  shows "(\<And>sh x st. fst (cb sh x st) \<noteq> VFalse) \<Longrightarrow>
         fst (visit cb True sh a st) \<noteq> VFalse \<and> snd (visit cb True sh a st) = walk cb sh a st"
    and "(\<And>sh x st. fst (cb sh x st) \<noteq> VFalse) \<Longrightarrow> res \<noteq> VFalse \<Longrightarrow>
         fst (visitChildren cb cs i a res st) \<noteq> VFalse \<and>
         snd (visitChildren cb cs i a res st) = walkList cb cs i a st"
proof (induction cb "True" sh a st and cb cs i a res st rule: visit_visitChildren.induct)
  case (1 callback a st)
  then show ?case by simp
next
  case (2 callback cs a st)
  obtain res st1 where c: "callback (Array cs) a st = (res, st1)" by force
  have nf: "res \<noteq> VFalse" using "2.prems" [of "Array cs" a st] c by simp
  show ?case
  proof (cases "res = VSkip")
    case True
    with c show ?thesis by simp
  next
    case False
    have "fst (visitChildren callback cs 0 a res st1) \<noteq> VFalse \<and>
          snd (visitChildren callback cs 0 a res st1) = walkList callback cs 0 a st1"
      using "2.hyps" [of "(res, st1)" res st1] c False nf "2.prems" by simp
    with c False nf show ?thesis by simp
  qed
next
  case (3 callback i a res st)
  then show ?case by simp
next
  case (4 callback c cs i a res st)
  obtain r st1 where v: "visit callback True c (i # a) st = (r, st1)" by force
  have h1: "r \<noteq> VFalse \<and> st1 = walk callback c (i # a) st"
    using "4.hyps"(1) "4.prems"(1) v by (metis fst_conv snd_conv)
  have "fst (visitChildren callback cs (i + 1) a r st1) \<noteq> VFalse \<and>
        snd (visitChildren callback cs (i + 1) a r st1) = walkList callback cs (i + 1) a st1"
    using "4.hyps"(2) [of "(r, st1)" r st1] v h1 "4.prems"(1) by simp
  with v h1 show ?case by simp
qed

lemma treeVisit_walk:
  assumes "\<And>sh x st. fst (cb sh x st) \<noteq> VFalse"
  shows "snd (treeVisit cb root st) = walkTree cb root st"
proof (cases root)
  case Null
  then show ?thesis by (simp add: treeVisit_def walkTree_def)
next
  case (Array cs)
  have "snd (visitChildren cb cs 0 [] VTrue st) = walkList cb cs 0 [] st"
    using visit_walk(2) [of cb VTrue cs 0 "[]" st] assms by simp
  then show ?thesis by (simp add: treeVisit_def walkTree_def Array)
qed



lemma nodes_setNode [simp]:
  "nodes (setNode a f t) x = (if x = a then f (nodes t a) else nodes t x)"
  by (simp add: setNode_def)

lemma setNode_frame [simp]:
  "shape (setNode a f t) = shape t" "options (setNode a f t) = options t"
  "activeNode (setNode a f t) = activeNode t" "enableFilter (setNode a f t) = enableFilter t"
  "updateEnabled (setNode a f t) = updateEnabled t" "redraws (setNode a f t) = redraws t"
  "filterMode (setNode a f t) = filterMode t" "lastFilterArgs (setNode a f t) = lastFilterArgs t"
  "classList (setNode a f t) = classList t" "status (setNode a f t) = status t"
  "listHeight (setNode a f t) = listHeight t"
  by (simp_all add: setNode_def)

lemma nodes_render [simp]:
  "nodes (render a t) x =
     (if x = a then (nodes t a)\<lparr>rowElem := Some \<lparr>className = rowClasses (nodes t a) (activeNode t = Some a),
         topPx = rowIdx (nodes t a) * 16, titleText = title (nodes t a)\<rparr>\<rparr> else nodes t x)"
  by (simp add: render_def)

lemma render_frame [simp]:
  "shape (render a t) = shape t" "options (render a t) = options t"
  "activeNode (render a t) = activeNode t" "enableFilter (render a t) = enableFilter t"
  "updateEnabled (render a t) = updateEnabled t" "redraws (render a t) = redraws t"
  "filterMode (render a t) = filterMode t" "lastFilterArgs (render a t) = lastFilterArgs t"
  "classList (render a t) = classList t" "status (render a t) = status t"
  "listHeight (render a t) = listHeight t"
  by (simp_all add: render_def)

lemma nodes_setExpanded [simp]:
  "nodes (setExpanded a flag t) x =
     (if x = a then (nodes t a)\<lparr>expanded := flag,
         rowElem := Some \<lparr>className = rowClasses ((nodes t a)\<lparr>expanded := flag\<rparr>) (activeNode t = Some a),
         topPx = rowIdx (nodes t a) * 16, titleText = title (nodes t a)\<rparr>\<rparr> else nodes t x)"
  by (simp add: setExpanded_def setDirty_def)

lemma setExpanded_frame [simp]:
  "shape (setExpanded a f t) = shape t" "options (setExpanded a f t) = options t"
  "activeNode (setExpanded a f t) = activeNode t" "enableFilter (setExpanded a f t) = enableFilter t"
  "updateEnabled (setExpanded a f t) = updateEnabled t" "redraws (setExpanded a f t) = redraws t"
  "filterMode (setExpanded a f t) = filterMode t" "lastFilterArgs (setExpanded a f t) = lastFilterArgs t"
  "classList (setExpanded a f t) = classList t" "status (setExpanded a f t) = status t"
  "listHeight (setExpanded a f t) = listHeight t"
  by (simp_all add: setExpanded_def setDirty_def)











lemma nodes_update_cong: "f = g \<Longrightarrow> t\<lparr>nodes := f\<rparr> = t\<lparr>nodes := g\<rparr>"
  by simp





lemma sameFrame_refl [simp]: "sameFrame t t"
  by (simp add: sameFrame_def)

lemma sameFrame_trans: "sameFrame t t1 \<Longrightarrow> sameFrame t1 t2 \<Longrightarrow> sameFrame t t2"
proof -
  assume a: "sameFrame t t1" and b: "sameFrame t1 t2"
  have "t2 = t1\<lparr>nodes := nodes t2\<rparr>" using b by (simp add: sameFrame_def)
  also have "t1 = t\<lparr>nodes := nodes t1\<rparr>" using a by (simp add: sameFrame_def)
  finally show ?thesis by (simp add: sameFrame_def)
qed

lemma sameFrame_setNode [simp]: "sameFrame t (setNode a f t)"
  by (simp add: sameFrame_def setNode_def)

lemma sameFrame_setNode': "sameFrame t t1 \<Longrightarrow> sameFrame t (setNode a f t1)"
  using sameFrame_trans sameFrame_setNode by blast


lemma sameFrame_eqI: "sameFrame t t' \<Longrightarrow> nodes t' = nodes t \<Longrightarrow> t' = t"
  by (simp add: sameFrame_def)






lemma walk_pointwise:
  fixes g :: "node \<Rightarrow> node"
  shows "(\<And>n. g (g n) = g n) \<Longrightarrow> cb = (\<lambda>sh x t. (VUndefined, setNode x g t)) \<Longrightarrow>
     walk cb sh a t =
       t\<lparr>nodes := \<lambda>x. if x \<in> fst ` set (subnodes sh a) then g (nodes t x) else nodes t x\<rparr>"
    and "(\<And>n. g (g n) = g n) \<Longrightarrow> cb = (\<lambda>sh x t. (VUndefined, setNode x g t)) \<Longrightarrow>
     walkList cb cs i a t =
       t\<lparr>nodes := \<lambda>x. if x \<in> fst ` set (subnodesList cs i a) then g (nodes t x) else nodes t x\<rparr>"
proof (induction cb sh a t and cb cs i a t rule: walk_walkList.induct)
  case (1 cb a st)
  then show ?case by (auto simp: setNode_def intro!: nodes_update_cong)
next
  case (2 cb cs a st)
  have cbv: "cb (Array cs) a st = (VUndefined, setNode a g st)"
    using "2.prems"(2) by simp
  have "walk cb (Array cs) a st = walkList cb cs 0 a (setNode a g st)"
    using cbv by simp
  also have "\<dots> = (setNode a g st)\<lparr>nodes := \<lambda>x. if x \<in> fst ` set (subnodesList cs 0 a)
       then g (nodes (setNode a g st) x) else nodes (setNode a g st) x\<rparr>"
    using "2.IH" "2.prems" cbv by (simp cong: if_cong)
  also have "\<dots> = st\<lparr>nodes := \<lambda>x. if x \<in> fst ` set (subnodes (Array cs) a)
       then g (nodes st x) else nodes st x\<rparr>"
    unfolding setNode_def using "2.prems"(1) by (auto simp: fun_eq_iff intro!: nodes_update_cong)
  finally show ?case .
next
  case (3 cb i a st)
  then show ?case by simp
next
  case (4 cb c cs i a st)
  let ?t1 = "walk cb c (i # a) st"
  have t1: "?t1 = st\<lparr>nodes := \<lambda>x. if x \<in> fst ` set (subnodes c (i # a))
       then g (nodes st x) else nodes st x\<rparr>"
    using "4.IH"(1) "4.prems" by simp
  have "walkList cb (c # cs) i a st = walkList cb cs (i + 1) a ?t1" by simp
  also have "\<dots> = ?t1\<lparr>nodes := \<lambda>x. if x \<in> fst ` set (subnodesList cs (i + 1) a)
       then g (nodes ?t1 x) else nodes ?t1 x\<rparr>"
    using "4.IH"(2) "4.prems" by simp
  also have "\<dots> = st\<lparr>nodes := \<lambda>x. if x \<in> fst ` set (subnodesList (c # cs) i a)
       then g (nodes st x) else nodes st x\<rparr>"
    unfolding t1 using "4.prems"(1) by (auto simp: fun_eq_iff intro!: nodes_update_cong)
  finally show ?case .
qed


section \<open>The filter: clearing, the empty text, inherited matches\<close>


lemma enableUpdate_frame [simp]:
  "nodes (snd (enableUpdate f t)) = nodes t" "shape (snd (enableUpdate f t)) = shape t"
  "filterMode (snd (enableUpdate f t)) = filterMode t"
  "options (snd (enableUpdate f t)) = options t"
  "lastFilterArgs (snd (enableUpdate f t)) = lastFilterArgs t"
  "status (snd (enableUpdate f t)) = status t"
  "classList (snd (enableUpdate f t)) = classList t"
  "activeNode (snd (enableUpdate f t)) = activeNode t"
  by (simp_all add: enableUpdate_def)


lemma clearNode_fst [simp]: "fst (clearNode sh a t) = VUndefined"
  by (simp add: clearNode_def Let_def)




lemma clearNode_shape [simp]: "shape (snd (clearNode sh a t)) = shape t"
  by (simp add: clearNode_def Let_def)












lemma subnodes_suffix:
  "(x, shx) \<in> set (subnodes sh a) \<Longrightarrow> suffix a x"
  "(x, shx) \<in> set (subnodesList cs i a) \<Longrightarrow> \<exists>j. i \<le> j \<and> j < i + length cs \<and> suffix (j # a) x"
proof (induction sh a and cs i a arbitrary: x shx and x shx rule: subnodes_subnodesList.induct)
  case (1 a)
  then show ?case by simp
next
  case (2 cs a)
  then show ?case by (auto dest!: "2.IH" intro: suffix_ConsD)
next
  case (3 i a)
  then show ?case by simp
next
  case (4 c cs i a)
  from "4.prems" consider "(x, shx) \<in> set (subnodes c (i # a))"
    | "(x, shx) \<in> set (subnodesList cs (i + 1) a)" by auto
  then show ?case
  proof cases
    case 1
    then have "suffix (i # a) x" by (rule "4.IH"(1))
    then show ?thesis by auto
  next
    case 2
    then obtain j where "i + 1 \<le> j" "j < i + 1 + length cs" "suffix (j # a) x"
      using "4.IH"(2) by blast
    then show ?thesis by (intro exI [of _ j]) auto
  qed
qed







lemma bumpNode_fields [simp]:
  "match (bumpNode s e act n) = match n"
  "titleWithHighlight (bumpNode s e act n) = titleWithHighlight n"
  "title (bumpNode s e act n) = title n"
  "subMatchCount (bumpNode s e act n) = (if s then subMatchCount n else incr (subMatchCount n))"
  "expanded (bumpNode s e act n) = (expanded n \<or> e)"
  by (auto simp: bumpNode_def Let_def)

lemma bumpNode_inert: "\<not> e \<Longrightarrow> bumpNode True e act n = n"
  by (simp add: bumpNode_def)




lemma resetNode_eq: "resetNode = (\<lambda>sh x t. (VUndefined, setNode x resetFields t))"
  by (simp add: fun_eq_iff resetNode_def resetFields_def)

lemma walkTree_pointwise:
  assumes "\<And>n. g (g n) = g n"
  shows "walkTree (\<lambda>sh x t. (VUndefined, setNode x g t)) root t =
       t\<lparr>nodes := \<lambda>x. if x \<in> fst ` set (descendants root []) then g (nodes t x) else nodes t x\<rparr>"
proof (cases root)
  case Null
  then show ?thesis by (simp add: walkTree_def descendants_def)
next
  case (Array cs)
  then show ?thesis
    using walk_pointwise(2) [of g "\<lambda>sh x t. (VUndefined, setNode x g t)" cs 0 "[]" t] assms
    by (simp add: walkTree_def descendants_def)
qed

lemma classToggle_frame [simp]:
  "nodes (classToggle n f t) = nodes t" "shape (classToggle n f t) = shape t"
  "activeNode (classToggle n f t) = activeNode t" "options (classToggle n f t) = options t"
  "filterMode (classToggle n f t) = filterMode t"
  by (simp_all add: classToggle_def)


lemma beforeEvaluation_frame [simp]:
  "shape (beforeEvaluation flt bm args t) = shape t"
  "activeNode (beforeEvaluation flt bm args t) = activeNode t"
proof -
  have nf: "\<And>sh x st. fst (resetNode sh x st) \<noteq> VFalse" by (simp add: resetNode_def)
  have idem: "\<And>n. resetFields (resetFields n) = resetFields n" by (simp add: resetFields_def)
  show "shape (beforeEvaluation flt bm args t) = shape t"
    unfolding beforeEvaluation_def Let_def treeVisit_walk [OF nf]
    unfolding resetNode_eq walkTree_pointwise [OF idem]
    by (simp add: setStatus_def)
  show "activeNode (beforeEvaluation flt bm args t) = activeNode t"
    unfolding beforeEvaluation_def Let_def treeVisit_walk [OF nf]
    unfolding resetNode_eq walkTree_pointwise [OF idem]
    by (simp add: setStatus_def)
qed














text \<open>
  Claim C6. \<open>_applyFilterImpl\<close> with the empty string, and so \<open>filterNodes\<close> and
  \<open>filterBranches\<close>, leaves exactly the tree that \<open>clearFilter\<close> leaves, whatever the
  state before, and returns no count.
\<close>

theorem empty_text_is_clearFilter:
  "applyFilterImpl u (FText (str '''')) branchMode args t = (None, clearFilter t)
   \<and> filterNodes u (FText (str '''')) args t = (None, clearFilter t)
   \<and> filterBranches u (FText (str '''')) args t = (None, clearFilter t)"
  by (simp add: filterNodes_def filterBranches_def applyFilterImpl_def isEmptyText_def str_def)




lemma exTree_fields [simp]:
  "shape exTree = exShape" "nodes exTree = exNodes" "activeNode exTree = None"
  "options exTree = \<lparr>escapeTitles = True, autoCollapse = False, filterOptions = defaultFilterOpts\<rparr>"
  by (simp_all add: exTree_def newTree_def)









section \<open>The evaluation pass of the filter\<close>


lemma in_subnodes_suffix: "x \<in> fst ` set (subnodes sh a) \<Longrightarrow> suffix a x"
  using subnodes_suffix(1) by force







lemma suffix_child_trans: "suffix a y \<Longrightarrow> suffix a (j # y)"
  by (simp add: suffix_Cons)



lemma matched_simps [simp]:
  "matched t [] = 0"
  "matched t ((x, sh) # xs) = (if truthy (match (nodes t x)) then 1 else 0) + matched t xs"
  "matched t (xs @ ys) = matched t xs + matched t ys"
  by (simp_all add: matched_def)






lemma strict_suffix_not_in_subnodes:
  "strict_suffix y a \<Longrightarrow> y \<notin> fst ` set (subnodes sh a)"
proof
  assume s: "strict_suffix y a" and m: "y \<in> fst ` set (subnodes sh a)"
  from m have "suffix a y" by (rule in_subnodes_suffix)
  moreover have "suffix y a" "y \<noteq> a" using s by (simp_all add: strict_suffix_def)
  ultimately show False using suffix_order.antisym by blast
qed

lemma walkE:
  "walk cb sh a st =
     (if fst (cb sh a st) = VSkip then snd (cb sh a st)
      else case sh of Null \<Rightarrow> snd (cb sh a st) | Array cs \<Rightarrow> walkList cb cs 0 a (snd (cb sh a st)))"
  by (cases sh) simp_all




lemma descendants_simps [simp]:
  "descendants Null x = []" "descendants (Array cs) x = subnodesList cs 0 x"
  by (simp_all add: descendants_def)






























section \<open>Rows and rendering\<close>
























lemma renumber_throws:
  fixes opts :: "('r :: linordered_semidom) range"
  assumes "shape t = Null \<or> (\<exists>cs. shape t = Array cs \<and> length cs \<le> 1)"
  shows "renumber opts t = Some (Inl TypeError)"
  using assms by (auto simp: renumber_def)




text \<open>
  Claim C9: the code writes more than the render state. On the example tree, whose
  second top-level node \<open>E\<close> is collapsed, \<open>renumber\<close> returns a tree in which \<open>E\<close> is
  expanded; on a tree with a single top-level node it throws a \<open>TypeError\<close>.
\<close>

theorem renumber_expands_second_node:
  "expanded (nodes exTree [1]) = False
   \<and> expanded (nodes (treeAfter exTree (renumber wideRange exTree)) [1]) = True
   \<and> thrown (renumber wideRange (newTree (Array [Null]) exNodes)) = Some TypeError"
  by code_simp

end
